theory Spec2Isabelle
  imports Complex_Main "HOL-Library.AList"
begin

section \<open>The cluster coordinator (src/cluster/coordinator.py)\<close>

text \<open>
  The coordinator keeps three dictionaries (\<open>nodes\<close>, \<open>active_jobs\<close>, \<open>completed_jobs\<close>),
  a statistics dictionary and three FIFO queues. Python dictionaries keep insertion order
  and assigning to an existing key keeps the key's position, so each dictionary is an
  association list handled with \<open>AList.update\<close>, \<open>AList.delete\<close> and \<open>map_of\<close>.

  A job is one Python dict object that is referenced from \<open>active_jobs\<close> or
  \<open>completed_jobs\<close> and from a queue at the same time and is mutated in place. The model
  keeps the job objects in a store (\<open>heap\<close>, a list indexed by reference); dictionaries and
  queues hold references.

  \<open>time.time()\<close> is an input of every operation (the parameter \<open>now\<close>), floats are reals.
  Request bodies are taken as well typed: \<open>node_id\<close> and \<open>address\<close> are strings, an omitted
  optional field is \<open>None\<close>. A request handler and one sweep of a monitor run from one
  suspension point to the next without interruption, so each is one function on the state.
  The dispatcher \<open>assign_jobs\<close> suspends at each wait on a queue, at each sleep and at the
  call of the worker; it is a function that advances the coroutine from one suspension
  point to the next, and other handlers may run in between.
  \<open>broadcast_update\<close> appends the message it is given to the log \<open>events\<close>; the delivery to
  the websocket clients is not part of the model.
\<close>

subsection \<open>Data\<close>

type_synonym payload = string

datatype node_state = Online | Offline

datatype job_state = Queued | Assigned | Completed | Failed

record node =
  node_id :: string
  address :: string
  capabilities :: "string list"
  gpu_enabled :: bool
  worker_threads :: int
  node_status :: node_state
  last_heartbeat :: real
  jobs_completed :: nat
  average_job_time :: real
  load_score :: real

record job =
  job_id :: string
  job_type :: string
  priority :: string
  parameters :: payload
  submitted_at :: real
  job_status :: job_state
  assigned_node :: "string option"
  gpu_preferred :: bool
  assigned_at :: "real option"
  completed_at :: "real option"
  job_result :: "payload option"
  execution_time :: "real option"
  job_error :: "string option"
  failed_at :: "real option"

record stats =
  total_calculations :: nat
  gpu_calculations :: nat
  cpu_calculations :: nat
  start_time :: real
  nodes_online :: nat
  average_response_time :: real

datatype event =
    Node_registered node stats
  | Node_offline string stats
  | Job_completed job stats
  | Job_failed job string

record coordinator =
  nodes :: "(string \<times> node) list"
  heap :: "job list"
  active_jobs :: "(string \<times> nat) list"
  completed_jobs :: "(string \<times> nat) list"
  cluster_stats :: stats
  thread_queue :: "nat list"
  collatz_queue :: "nat list"
  priority_queue :: "nat list"
  events :: "event list"

text \<open>\<open>ClusterCoordinator.__init__\<close>, with \<open>time.time()\<close> read as \<open>now\<close>.\<close>

definition init :: "real \<Rightarrow> coordinator" where
  "init now =
     \<lparr>nodes = [], heap = [], active_jobs = [], completed_jobs = [],
      cluster_stats = \<lparr>total_calculations = 0, gpu_calculations = 0, cpu_calculations = 0,
        start_time = now, nodes_online = 0, average_response_time = 0\<rparr>,
      thread_queue = [], collatz_queue = [], priority_queue = [], events = []\<rparr>"

subsection \<open>Requests and responses\<close>

record register_request =
  reg_node_id :: string
  reg_address :: string
  reg_capabilities :: "string list option"
  reg_gpu_enabled :: "bool option"
  reg_worker_threads :: "int option"

record heartbeat_request =
  hb_node_id :: string
  hb_load_score :: "real option"

record submit_request =
  req_type :: "string option"
  req_priority :: "string option"
  req_parameters :: "payload option"
  req_gpu_preferred :: "bool option"

text \<open>\<open>data.get(key, default)\<close>.\<close>

definition get_default :: "'a option \<Rightarrow> 'a \<Rightarrow> 'a" where
  "get_default v d = (case v of None \<Rightarrow> d | Some x \<Rightarrow> x)"

text \<open>\<open>len([n for n in self.nodes.values() if n['status'] == 'online'])\<close>.\<close>

definition online_nodes :: "coordinator \<Rightarrow> node list" where
  "online_nodes s = filter (\<lambda>n. node_status n = Online) (map snd (nodes s))"

definition broadcast_update :: "event \<Rightarrow> coordinator \<Rightarrow> coordinator" where
  "broadcast_update e s = s\<lparr>events := events s @ [e]\<rparr>"

subsection \<open>Registration and heartbeat\<close>

definition register_node :: "register_request \<Rightarrow> real \<Rightarrow> coordinator \<Rightarrow> (string \<times> string) \<times> coordinator" where
  "register_node data now s =
     (let node_info = \<lparr>node_id = reg_node_id data,
                       address = reg_address data,
                       capabilities = get_default (reg_capabilities data) [],
                       gpu_enabled = get_default (reg_gpu_enabled data) False,
                       worker_threads = get_default (reg_worker_threads data) 1,
                       node_status = Online,
                       last_heartbeat = now,
                       jobs_completed = 0,
                       average_job_time = 0,
                       load_score = 0\<rparr>;
          s1 = s\<lparr>nodes := AList.update (reg_node_id data) node_info (nodes s)\<rparr>;
          s2 = s1\<lparr>cluster_stats := (cluster_stats s1)\<lparr>nodes_online := length (online_nodes s1)\<rparr>\<rparr>;
          s3 = broadcast_update (Node_registered node_info (cluster_stats s2)) s2
      in ((''registered'', reg_node_id data), s3))"

definition heartbeat :: "heartbeat_request \<Rightarrow> real \<Rightarrow> coordinator \<Rightarrow> (nat \<times> string) \<times> coordinator" where
  "heartbeat data now s =
     (case map_of (nodes s) (hb_node_id data) of
        Some n \<Rightarrow>
          ((200, ''acknowledged''),
           s\<lparr>nodes := AList.update (hb_node_id data)
                 (n\<lparr>last_heartbeat := now, node_status := Online,
                    load_score := get_default (hb_load_score data) 0\<rparr>) (nodes s)\<rparr>)
      | None \<Rightarrow> ((400, ''unknown_node''), s))"

subsection \<open>Node selection\<close>

definition select_best_node :: "job \<Rightarrow> coordinator \<Rightarrow> node option" where
  "select_best_node j s =
     (let available_nodes = online_nodes s
      in if available_nodes = [] then None
         else
           let gpu_nodes = filter gpu_enabled available_nodes;
               available_nodes = (if gpu_preferred j \<and> gpu_nodes \<noteq> [] then gpu_nodes
                                  else available_nodes)
           in (case sort_key load_score available_nodes of
                 [] \<Rightarrow> None
               | n # _ \<Rightarrow> Some n))"

subsection \<open>Job identifiers\<close>

text \<open>
  \<open>f"job_{int(time.time() * 1000)}_{len(self.active_jobs)}"\<close>. The product is computed in
  double precision and truncated, so the integer \<open>int(time.time() * 1000)\<close> of line 103 is
  an input of its own (\<open>stamp\<close>), apart from the clock value of line 110. An integer is
  formatted in decimal.
\<close>

fun str_nat :: "nat \<Rightarrow> string" where
  "str_nat n =
     (if n < 10 then [''0123456789'' ! n]
      else str_nat (n div 10) @ [''0123456789'' ! (n mod 10)])"

declare str_nat.simps [simp del]

definition str_int :: "int \<Rightarrow> string" where
  "str_int i = (if i < 0 then CHR ''-'' # str_nat (nat (- i)) else str_nat (nat i))"

definition make_job_id :: "int \<Rightarrow> coordinator \<Rightarrow> string" where
  "make_job_id stamp s =
     ''job_'' @ str_int stamp @ ''_'' @ str_nat (length (active_jobs s))"

subsection \<open>Submission\<close>

definition estimate_wait_time :: "job \<Rightarrow> coordinator \<Rightarrow> real" where
  "estimate_wait_time j s =
     (let available_nodes = online_nodes s;
          gpu_nodes = filter gpu_enabled available_nodes
      in if available_nodes = [] then 300
         else if gpu_preferred j \<and> gpu_nodes \<noteq> []
           then max (sum_list (map average_job_time gpu_nodes) / real (length gpu_nodes)) 10
           else max (sum_list (map average_job_time available_nodes)
                       / real (length available_nodes)) 30)"

text \<open>
  The three \<open>if/elif/else\<close> branches that choose a queue, used by \<open>submit_job\<close> and by the
  re-queueing branch of \<open>assign_jobs\<close>.
\<close>

definition enqueue :: "job \<Rightarrow> nat \<Rightarrow> coordinator \<Rightarrow> coordinator" where
  "enqueue j r s =
     (if priority j = ''high'' then s\<lparr>priority_queue := priority_queue s @ [r]\<rparr>
      else if job_type j = ''collatz'' then s\<lparr>collatz_queue := collatz_queue s @ [r]\<rparr>
      else s\<lparr>thread_queue := thread_queue s @ [r]\<rparr>)"

definition submit_job :: "submit_request \<Rightarrow> int \<Rightarrow> real \<Rightarrow> coordinator \<Rightarrow> (string \<times> string \<times> real) \<times> coordinator" where
  "submit_job data stamp now s =
     (let jid = make_job_id stamp s;
          j = \<lparr>job_id = jid,
               job_type = get_default (req_type data) ''thread'',
               priority = get_default (req_priority data) ''normal'',
               parameters = get_default (req_parameters data) ''{}'',
               submitted_at = now,
               job_status = Queued,
               assigned_node = None,
               gpu_preferred = get_default (req_gpu_preferred data) True,
               assigned_at = None, completed_at = None, job_result = None,
               execution_time = None, job_error = None, failed_at = None\<rparr>;
          r = length (heap s);
          s1 = s\<lparr>heap := heap s @ [j], active_jobs := AList.update jid r (active_jobs s)\<rparr>;
          s2 = enqueue j r s1
      in ((jid, ''queued'', estimate_wait_time j s2), s2))"

subsection \<open>Completion and failure\<close>

datatype py_error = KeyError string

text \<open>\<open>str(e)\<close> of a \<open>KeyError\<close> is the \<open>repr\<close> of the missing key.\<close>

fun str_error :: "py_error \<Rightarrow> string" where
  "str_error (KeyError k) = k"

definition repr_key :: "string option \<Rightarrow> string" where
  "repr_key k = (case k of None \<Rightarrow> ''None'' | Some x \<Rightarrow> [CHR 0x27] @ x @ [CHR 0x27])"

text \<open>\<open>node_id in self.nodes\<close> and \<open>self.nodes[node_id]\<close> for a key that may be \<open>None\<close>.\<close>

definition lookup_node :: "string option \<Rightarrow> coordinator \<Rightarrow> node option" where
  "lookup_node k s = (case k of None \<Rightarrow> None | Some x \<Rightarrow> map_of (nodes s) x)"

text \<open>The update of the executing node's counters (lines 244 to 248).\<close>

definition record_completion :: "real \<Rightarrow> node \<Rightarrow> node" where
  "record_completion t n =
     (let n1 = n\<lparr>jobs_completed := jobs_completed n + 1\<rparr>
      in n1\<lparr>average_job_time :=
              (average_job_time n1 * (real (jobs_completed n1) - 1) + t)
                / real (jobs_completed n1)\<rparr>)"

text \<open>
  \<open>handle_job_completion\<close> returns the exception that leaves it, if any, and the state at
  that moment: the mutations made before a \<open>KeyError\<close> stay.
\<close>

definition handle_job_completion :: "string \<Rightarrow> payload \<Rightarrow> real \<Rightarrow> coordinator \<Rightarrow> py_error option \<times> coordinator" where
  "handle_job_completion jid res now s =
     (case map_of (active_jobs s) jid of
        None \<Rightarrow> (None, s)
      | Some r \<Rightarrow>
          (let j1 = (heap s ! r)\<lparr>job_status := Completed, completed_at := Some now,
                                 job_result := Some res\<rparr>;
               s1 = s\<lparr>active_jobs := AList.delete jid (active_jobs s)\<rparr>
           in case assigned_at j1 of
                None \<Rightarrow> (Some (KeyError (repr_key (Some ''assigned_at''))),
                          s1\<lparr>heap := (heap s1)[r := j1]\<rparr>)
              | Some ta \<Rightarrow>
                  (let j2 = j1\<lparr>execution_time := Some (now - ta)\<rparr>;
                       s2 = s1\<lparr>heap := (heap s1)[r := j2],
                               completed_jobs := AList.update jid r (completed_jobs s1)\<rparr>;
                       nid = assigned_node j2;
                       s3 = (case nid of
                               None \<Rightarrow> s2
                             | Some k \<Rightarrow>
                                 (case map_of (nodes s2) k of
                                    None \<Rightarrow> s2
                                  | Some n \<Rightarrow>
                                      s2\<lparr>nodes := AList.update k
                                            (record_completion (now - ta) n) (nodes s2)\<rparr>));
                       s4 = s3\<lparr>cluster_stats := (cluster_stats s3)
                               \<lparr>total_calculations := total_calculations (cluster_stats s3) + 1\<rparr>\<rparr>
                   in if gpu_preferred j2
                      then (case lookup_node nid s4 of
                              None \<Rightarrow> (Some (KeyError (repr_key nid)), s4)
                            | Some n \<Rightarrow>
                                (let s5 = (if gpu_enabled n
                                           then s4\<lparr>cluster_stats := (cluster_stats s4)
                                             \<lparr>gpu_calculations := gpu_calculations (cluster_stats s4) + 1\<rparr>\<rparr>
                                           else s4\<lparr>cluster_stats := (cluster_stats s4)
                                             \<lparr>cpu_calculations := cpu_calculations (cluster_stats s4) + 1\<rparr>\<rparr>)
                                 in (None, broadcast_update (Job_completed j2 (cluster_stats s5)) s5)))
                      else (let s5 = s4\<lparr>cluster_stats := (cluster_stats s4)
                                  \<lparr>cpu_calculations := cpu_calculations (cluster_stats s4) + 1\<rparr>\<rparr>
                            in (None, broadcast_update (Job_completed j2 (cluster_stats s5)) s5)))))"

definition handle_job_failure :: "string \<Rightarrow> string \<Rightarrow> real \<Rightarrow> coordinator \<Rightarrow> coordinator" where
  "handle_job_failure jid err now s =
     (case map_of (active_jobs s) jid of
        None \<Rightarrow> s
      | Some r \<Rightarrow>
          (let j1 = (heap s ! r)\<lparr>job_status := Failed, job_error := Some err,
                                 failed_at := Some now\<rparr>;
               s1 = s\<lparr>heap := (heap s)[r := j1]\<rparr>
           in broadcast_update (Job_failed j1 err) s1))"

subsection \<open>The dispatcher\<close>

text \<open>
  What the worker's execute call ends in: a response with its status and its body (the
  message of the decoding error when the body is not JSON, the decoded document otherwise),
  or an exception of the HTTP client (network error, timeout) with its message.
\<close>

datatype rpc_outcome =
    Responded nat "string + payload"
  | Raised string

text \<open>
  \<open>assign_job_to_node\<close> in its two halves. \<open>mark_assigned\<close> is lines 208 to 210, run at
  time \<open>t0\<close>; then the coroutine waits for the worker, and other handlers may run.
  \<open>rpc_finished\<close> is the \<open>try\<close> block from the moment the call ends, at time \<open>t1\<close>: an
  exception of \<open>handle_job_completion\<close> is caught by the same \<open>except\<close> clause as one of
  the HTTP client. \<open>assign_job_to_node\<close> is the two run one after the other with nothing
  in between.
\<close>

definition mark_assigned :: "nat \<Rightarrow> node \<Rightarrow> real \<Rightarrow> coordinator \<Rightarrow> coordinator" where
  "mark_assigned r n t0 s =
     s\<lparr>heap := (heap s)[r := (heap s ! r)\<lparr>assigned_node := Some (node_id n),
                                           job_status := Assigned,
                                           assigned_at := Some t0\<rparr>]\<rparr>"

definition rpc_finished :: "nat \<Rightarrow> rpc_outcome \<Rightarrow> real \<Rightarrow> coordinator \<Rightarrow> coordinator" where
  "rpc_finished r outcome t1 s =
     (let jid = job_id (heap s ! r)
      in case outcome of
           Raised msg \<Rightarrow> handle_job_failure jid msg t1 s
         | Responded code body \<Rightarrow>
             if code = 200
             then (case body of
                     Inl msg \<Rightarrow> handle_job_failure jid msg t1 s
                   | Inr res \<Rightarrow>
                       (case handle_job_completion jid res t1 s of
                          (None, s1) \<Rightarrow> s1
                        | (Some e, s1) \<Rightarrow> handle_job_failure jid (str_error e) t1 s1))
             else handle_job_failure jid (''Node returned status '' @ str_nat code) t1 s)"

definition assign_job_to_node :: "nat \<Rightarrow> node \<Rightarrow> real \<Rightarrow> rpc_outcome \<Rightarrow> real \<Rightarrow> coordinator \<Rightarrow> coordinator" where
  "assign_job_to_node r n t0 outcome t1 s = rpc_finished r outcome t1 (mark_assigned r n t0 s)"

text \<open>
  One \<open>await asyncio.wait_for(queue.get(), timeout=0.1)\<close> of lines 158, 161 and 164, seen
  at the moment the coroutine resumes: with the head of that queue when the queue is not
  empty (also when the job arrived during the wait), with \<open>TimeoutError\<close> (\<open>None\<close>) when the
  wait ended with the queue still empty. The other two queues are not looked at.
\<close>

datatype queue_class = Priority | Collatz | Thread

definition queue_of :: "queue_class \<Rightarrow> coordinator \<Rightarrow> nat list" where
  "queue_of c s =
     (case c of Priority \<Rightarrow> priority_queue s | Collatz \<Rightarrow> collatz_queue s
      | Thread \<Rightarrow> thread_queue s)"

definition wait_for_get :: "queue_class \<Rightarrow> coordinator \<Rightarrow> (nat \<times> coordinator) option" where
  "wait_for_get c s =
     (case c of
        Priority \<Rightarrow>
          (case priority_queue s of
             r # rest \<Rightarrow> Some (r, s\<lparr>priority_queue := rest\<rparr>) | [] \<Rightarrow> None)
      | Collatz \<Rightarrow>
          (case collatz_queue s of
             r # rest \<Rightarrow> Some (r, s\<lparr>collatz_queue := rest\<rparr>) | [] \<Rightarrow> None)
      | Thread \<Rightarrow>
          (case thread_queue s of
             r # rest \<Rightarrow> Some (r, s\<lparr>thread_queue := rest\<rparr>) | [] \<Rightarrow> None))"

text \<open>
  Where the coroutine \<open>assign_jobs\<close> is suspended: in the wait on one of the queues, in
  \<open>asyncio.sleep(1)\<close> after three timeouts, in the call of the worker for the job with
  reference \<open>r\<close>, or in \<open>asyncio.sleep(5)\<close> after a job was put back.
\<close>

datatype location = Waiting queue_class | Sleeping | Calling nat | Backing_off

text \<open>
  Lines 169 to 182, for the job just taken from a queue, up to the next suspension: either
  the job is marked assigned and the call of the worker starts, or no node is online and
  the job goes back to the tail of its queue.
\<close>

definition job_dequeued :: "nat \<Rightarrow> real \<Rightarrow> coordinator \<Rightarrow> location \<times> coordinator" where
  "job_dequeued r t s =
     (case select_best_node (heap s ! r) s of
        Some n \<Rightarrow> (Calling r, mark_assigned r n t s)
      | None \<Rightarrow> (Backing_off, enqueue (heap s ! r) r s))"

text \<open>
  What resumes the coroutine: the end of a wait or of a sleep at time \<open>t\<close>, or the end of
  the call of the worker. \<open>assign_jobs\<close> runs the coroutine from where it is suspended to
  its next suspension. A timeout of the wait on the priority queue leads to the wait on
  the collatz queue, a timeout there to the wait on the thread queue, a timeout there to
  the sleep; every other path leads back to the wait on the priority queue. A resumption
  that does not fit the suspension (an answer while no call is open, a wake-up during a
  call) leaves everything as it is.
\<close>

datatype resumption = Wake real | Answer rpc_outcome real

fun assign_jobs :: "resumption \<Rightarrow> location \<times> coordinator \<Rightarrow> location \<times> coordinator" where
  "assign_jobs (Wake t) (Waiting c, s) =
     (case wait_for_get c s of
        Some (r, s1) \<Rightarrow> job_dequeued r t s1
      | None \<Rightarrow>
          (case c of
             Priority \<Rightarrow> (Waiting Collatz, s)
           | Collatz \<Rightarrow> (Waiting Thread, s)
           | Thread \<Rightarrow> (Sleeping, s)))"
| "assign_jobs (Wake t) (Sleeping, s) = (Waiting Priority, s)"
| "assign_jobs (Wake t) (Backing_off, s) = (Waiting Priority, s)"
| "assign_jobs (Wake t) (Calling r, s) = (Calling r, s)"
| "assign_jobs (Answer outcome t) (Calling r, s) = (Waiting Priority, rpc_finished r outcome t s)"
| "assign_jobs (Answer outcome t) (Waiting c, s) = (Waiting c, s)"
| "assign_jobs (Answer outcome t) (Sleeping, s) = (Sleeping, s)"
| "assign_jobs (Answer outcome t) (Backing_off, s) = (Backing_off, s)"

subsection \<open>The background sweeps\<close>

text \<open>One iteration of \<open>cleanup_old_jobs\<close>.\<close>

definition cleanup_old_jobs :: "real \<Rightarrow> coordinator \<Rightarrow> coordinator" where
  "cleanup_old_jobs now s =
     (let cutoff_time = now - 3600;
          old_jobs = map fst (filter (\<lambda>(k, r). get_default (completed_at (heap s ! r)) 0 < cutoff_time)
                                (completed_jobs s))
      in s\<lparr>completed_jobs := fold AList.delete old_jobs (completed_jobs s)\<rparr>)"

text \<open>The body of the \<open>for\<close> loop of \<open>monitor_nodes\<close>, and one iteration of its \<open>while\<close> loop.\<close>

definition check_node :: "real \<Rightarrow> string \<times> node \<Rightarrow> coordinator \<Rightarrow> coordinator" where
  "check_node now kn s =
     (if now - last_heartbeat (snd kn) > 60 \<and> node_status (snd kn) = Online
      then broadcast_update (Node_offline (fst kn) (cluster_stats s))
             (s\<lparr>nodes := AList.update (fst kn) ((snd kn)\<lparr>node_status := Offline\<rparr>) (nodes s)\<rparr>)
      else s)"

definition monitor_nodes :: "real \<Rightarrow> coordinator \<Rightarrow> coordinator" where
  "monitor_nodes now s =
     (let s1 = fold (check_node now) (nodes s) s
      in s1\<lparr>cluster_stats := (cluster_stats s1)\<lparr>nodes_online := length (online_nodes s1)\<rparr>\<rparr>)"

subsection \<open>The coordinator as a whole\<close>

text \<open>
  What happens to a running coordinator, one event at a time: a request arrives and its
  handler runs, the dispatcher is resumed, or a monitor makes one sweep. A run starts as
  \<open>main\<close> does, with the initial state and the dispatcher at its first wait on the
  priority queue.
\<close>

datatype action =
    Register register_request real
  | Heartbeat heartbeat_request real
  | Submit submit_request int real
  | Dispatcher resumption
  | Monitor real
  | Cleanup real

fun step :: "action \<Rightarrow> location \<times> coordinator \<Rightarrow> location \<times> coordinator" where
  "step (Register d t) (loc, s) = (loc, snd (register_node d t s))"
| "step (Heartbeat d t) (loc, s) = (loc, snd (heartbeat d t s))"
| "step (Submit d stamp t) (loc, s) = (loc, snd (submit_job d stamp t s))"
| "step (Dispatcher x) (loc, s) = assign_jobs x (loc, s)"
| "step (Monitor t) (loc, s) = (loc, monitor_nodes t s)"
| "step (Cleanup t) (loc, s) = (loc, cleanup_old_jobs t s)"

definition run :: "real \<Rightarrow> action list \<Rightarrow> location \<times> coordinator" where
  "run t0 acts = fold step acts (Waiting Priority, init t0)"

section \<open>Definitions that follow the specification\<close>

text \<open>
  The candidate set of node selection as the specification words it: the online nodes,
  narrowed to the GPU-enabled ones when the job prefers a GPU and there is one.
\<close>

definition candidate_set :: "job \<Rightarrow> coordinator \<Rightarrow> node set" where
  "candidate_set j s =
     (let online = {n \<in> snd ` set (nodes s). node_status n = Online}
      in if gpu_preferred j \<and> (\<exists>n\<in>online. gpu_enabled n)
         then {n \<in> online. gpu_enabled n} else online)"

text \<open>
  The ways the worker's execute call fails, as the specification lists them: a status that
  is not 2xx, a network error or a timeout (an exception of the client), or a body that is
  not a well-formed document.
\<close>

definition rpc_failed :: "rpc_outcome \<Rightarrow> bool" where
  "rpc_failed outcome =
     (case outcome of
        Raised msg \<Rightarrow> True
      | Responded code body \<Rightarrow> \<not> (200 \<le> code \<and> code < 300) \<or> isl body)"

text \<open>
  The execution times of the jobs that the node \<open>k\<close> has completed since its record was
  created, in order, read from the log: a \<open>node_registered\<close> event for \<open>k\<close> starts the list
  afresh, a \<open>job_completed\<close> event for a job assigned to \<open>k\<close> adds the job's
  \<open>execution_time\<close>.
\<close>

fun tally :: "string \<Rightarrow> event \<Rightarrow> real list \<Rightarrow> real list" where
  "tally k (Node_registered n st) ts = (if node_id n = k then [] else ts)"
| "tally k (Job_completed j st) ts =
     (if assigned_node j = Some k
      then (case execution_time j of Some t \<Rightarrow> ts @ [t] | None \<Rightarrow> ts) else ts)"
| "tally k (Node_offline i st) ts = ts"
| "tally k (Job_failed j e) ts = ts"

definition completion_times :: "string \<Rightarrow> coordinator \<Rightarrow> real list" where
  "completion_times k s = fold (tally k) (events s) []"


section \<open>The invariant of the running mean\<close>

text \<open>
  A node record agrees with a list of execution times when it has counted as many jobs as
  the list has entries and its mean times that number is their sum. In every state of a
  run the registry has one entry per id and each record agrees with the node's list.
\<close>

definition counted :: "node \<Rightarrow> real list \<Rightarrow> bool" where
  "counted n ts \<longleftrightarrow>
     jobs_completed n = length ts \<and> average_job_time n * real (length ts) = sum_list ts"

definition mean_inv :: "coordinator \<Rightarrow> bool" where
  "mean_inv s \<longleftrightarrow>
     distinct (map fst (nodes s)) \<and>
     (\<forall>k n. map_of (nodes s) k = Some n \<longrightarrow> counted n (completion_times k s))"


section \<open>Example inputs\<close>

definition example_node :: "string \<Rightarrow> bool \<Rightarrow> real \<Rightarrow> node" where
  "example_node k g l =
     \<lparr>node_id = k, address = ''10.0.0.1:8080'', capabilities = [], gpu_enabled = g,
      worker_threads = 4, node_status = Online, last_heartbeat = 0, jobs_completed = 0,
      average_job_time = 0, load_score = l\<rparr>"

definition example_job :: "string \<Rightarrow> string \<Rightarrow> string \<Rightarrow> bool \<Rightarrow> job" where
  "example_job k ty p g =
     \<lparr>job_id = k, job_type = ty, priority = p, parameters = ''{}'', submitted_at = 1,
      job_status = Queued, assigned_node = None, gpu_preferred = g, assigned_at = None,
      completed_at = None, job_result = None, execution_time = None, job_error = None,
      failed_at = None\<rparr>"

definition two_nodes :: coordinator where
  "two_nodes = (init 0)\<lparr>nodes := [(''N1'', example_node ''N1'' False (1/10)),
                                  (''N2'', example_node ''N2'' True (1/2))]\<rparr>"

definition register_body :: "string \<Rightarrow> bool \<Rightarrow> register_request" where
  "register_body k g =
     \<lparr>reg_node_id = k, reg_address = ''10.0.0.1:8080'', reg_capabilities = None,
      reg_gpu_enabled = Some g, reg_worker_threads = Some 4\<rparr>"

definition submit_body :: "string \<Rightarrow> string \<Rightarrow> bool option \<Rightarrow> submit_request" where
  "submit_body ty p g =
     \<lparr>req_type = Some ty, req_priority = Some p, req_parameters = None,
      req_gpu_preferred = g\<rparr>"

text \<open>A coordinator started at time 0 with one registered worker \<open>N1\<close>.\<close>

definition one_worker :: "bool \<Rightarrow> coordinator" where
  "one_worker g = snd (register_node (register_body ''N1'' g) 0 (init 0))"

text \<open>
  One worker and one job, submitted at time 1 (\<open>int(1.0 * 1000) = 1000\<close>). The dispatcher's
  waits on the priority queue and on the collatz queue time out, its wait on the thread
  queue returns the job at time 2 and the job is marked assigned: the state in which the
  dispatcher waits for the worker's answer.
\<close>

definition in_flight :: "bool \<Rightarrow> bool option \<Rightarrow> coordinator" where
  "in_flight g p =
     snd (fold assign_jobs [Wake (19/10), Wake 2, Wake 2]
            (Waiting Priority,
             snd (submit_job (submit_body ''thread'' ''normal'' p) 1000 1 (one_worker g))))"

text \<open>
  While that first job runs, a second job is submitted at 7.0001 s; the worker answers the
  first call at 7.0002 s. \<open>int(time.time() * 1000)\<close> is 7000 at 7.0001 s and at 7.0003 s.
\<close>

definition after_first_completion :: coordinator where
  "after_first_completion =
     rpc_finished 0 (Responded 200 (Inr ''{}'')) (70002/10000)
       (snd (submit_job (submit_body ''thread'' ''normal'' None) 7000 (70001/10000)
          (in_flight False None)))"

text \<open>A third job is submitted at 7.0003 s.\<close>

definition third_submitted :: coordinator where
  "third_submitted =
     snd (submit_job (submit_body ''thread'' ''normal'' None) 7000 (70003/10000)
            after_first_completion)"

text \<open>
  From there the dispatcher, back at its wait on the priority queue, times out twice,
  takes the second job (reference 1) from the thread queue at time 8 and gets the
  worker's answer at time 9.
\<close>

definition second_answered :: "rpc_outcome \<Rightarrow> coordinator" where
  "second_answered outcome =
     snd (fold assign_jobs [Wake 8, Wake 8, Wake 8, Answer outcome 9]
            (Waiting Priority, third_submitted))"

text \<open>
  A job submitted at 1.0001 s to an idle worker while the dispatcher waits on the thread
  queue, taken at 1.0002 s and answered at 1.0003 s. \<open>int(time.time() * 1000)\<close> is 1000 at
  1.0001 s and at 1.0004 s.
\<close>

definition first_done :: coordinator where
  "first_done =
     snd (fold assign_jobs [Wake (10002/10000), Answer (Responded 200 (Inr ''{}'')) (10003/10000)]
            (Waiting Thread,
             snd (submit_job (submit_body ''thread'' ''normal'' None) 1000 (10001/10000)
                    (one_worker False))))"




text \<open>
  One worker that completes two jobs, the first from 1.5 s to 2.5 s, the second from 4 s
  to 7 s, with a heartbeat in between.
\<close>

definition two_completions :: "action list" where
  "two_completions =
     [Register (register_body ''N1'' False) 0,
      Dispatcher (Wake (1/10)), Dispatcher (Wake (2/10)), Dispatcher (Wake (3/10)),
      Submit (submit_body ''thread'' ''normal'' None) 500 (1/2),
      Dispatcher (Wake (13/10)), Dispatcher (Wake (14/10)), Dispatcher (Wake (15/10)),
      Dispatcher (Wake (15/10)),
      Dispatcher (Answer (Responded 200 (Inr ''{}'')) (5/2)),
      Dispatcher (Wake (26/10)), Dispatcher (Wake (27/10)),
      Heartbeat \<lparr>hb_node_id = ''N1'', hb_load_score = Some (1/2)\<rparr> (11/4),
      Dispatcher (Wake (28/10)),
      Submit (submit_body ''thread'' ''normal'' None) 3000 3,
      Dispatcher (Wake (38/10)), Dispatcher (Wake (39/10)), Dispatcher (Wake 4),
      Dispatcher (Wake 4),
      Dispatcher (Answer (Responded 200 (Inr ''{}'')) 7)]"


section \<open>Evaluating the model\<close>

lemmas run_defs = register_body_def submit_body_def one_worker_def init_def
  register_node_def submit_job_def make_job_id_def str_int_def str_nat.simps
  get_default_def online_nodes_def broadcast_update_def enqueue_def estimate_wait_time_def
  wait_for_get_def queue_of_def job_dequeued_def run_def select_best_node_def
  assign_job_to_node_def mark_assigned_def rpc_finished_def handle_job_completion_def
  handle_job_failure_def heartbeat_def monitor_nodes_def check_node_def
  record_completion_def lookup_node_def repr_key_def completion_times_def Let_def
  in_flight_def


section \<open>Node selection\<close>

lemma sort_key_head:
  fixes f :: "'a \<Rightarrow> real"
  assumes "sort_key f xs = y # ys"
  shows "y \<in> set xs \<and> (\<forall>x\<in>set xs. f y \<le> f x)"
proof -
  have "set (y # ys) = set xs" using assms set_sort[of f xs] by simp
  moreover have "sorted (map f (y # ys))" using assms sorted_sort_key[of f xs] by simp
  ultimately show ?thesis by auto
qed

lemma sort_key_Nil: "sort_key f xs = [] \<longleftrightarrow> xs = []"
  using length_sort[of f xs] by (metis length_0_conv)

lemma online_nodes_set: "set (online_nodes s) = {n \<in> snd ` set (nodes s). node_status n = Online}"
  by (auto simp: online_nodes_def)

lemma pool_set:
  "set (if gpu_preferred j \<and> filter gpu_enabled (online_nodes s) \<noteq> []
        then filter gpu_enabled (online_nodes s) else online_nodes s) = candidate_set j s"
  by (auto simp: candidate_set_def online_nodes_set filter_empty_conv Let_def)

lemma select_best_node_sorted:
  "select_best_node j s =
     (case sort_key load_score
             (if gpu_preferred j \<and> filter gpu_enabled (online_nodes s) \<noteq> []
              then filter gpu_enabled (online_nodes s) else online_nodes s) of
        [] \<Rightarrow> None | n # _ \<Rightarrow> Some n)"
  by (cases "online_nodes s = []") (simp_all add: select_best_node_def Let_def)

lemma select_best_node_None:
  "select_best_node j s = None \<longleftrightarrow> online_nodes s = []"
proof -
  have "select_best_node j s = None \<longleftrightarrow>
        sort_key load_score
             (if gpu_preferred j \<and> filter gpu_enabled (online_nodes s) \<noteq> []
              then filter gpu_enabled (online_nodes s) else online_nodes s) = []"
    unfolding select_best_node_sorted by (simp split: list.splits)
  also have "\<dots> \<longleftrightarrow> online_nodes s = []"
    unfolding sort_key_Nil by auto
  finally show ?thesis .
qed

text \<open>
  C6: \<open>select_best_node\<close> returns \<open>None\<close> exactly when no node is online; otherwise it
  returns an online node of the candidate set whose \<open>load_score\<close> is minimal there, the
  candidate set being the online GPU nodes exactly when the job prefers a GPU and an online
  GPU node exists, and all online nodes otherwise.
\<close>

theorem select_best_node_spec:
  "(select_best_node j s = None \<longleftrightarrow> (\<forall>n \<in> snd ` set (nodes s). node_status n \<noteq> Online)) \<and>
   (\<forall>n. select_best_node j s = Some n \<longrightarrow>
      node_status n = Online \<and> n \<in> candidate_set j s \<and>
      (\<forall>m \<in> candidate_set j s. load_score n \<le> load_score m))"
proof (intro conjI allI impI)
  have "online_nodes s = [] \<longleftrightarrow> set (online_nodes s) = {}" by simp
  also have "\<dots> \<longleftrightarrow> (\<forall>n \<in> snd ` set (nodes s). node_status n \<noteq> Online)"
    unfolding online_nodes_set by blast
  finally show "select_best_node j s = None \<longleftrightarrow> (\<forall>n \<in> snd ` set (nodes s). node_status n \<noteq> Online)"
    unfolding select_best_node_None .
next
  fix n assume sel: "select_best_node j s = Some n"
  let ?pool = "if gpu_preferred j \<and> filter gpu_enabled (online_nodes s) \<noteq> []
        then filter gpu_enabled (online_nodes s) else online_nodes s"
  from sel obtain ys where srt: "sort_key load_score ?pool = n # ys"
    unfolding select_best_node_sorted by (auto split: list.splits)
  from sort_key_head[OF srt] have mem: "n \<in> set ?pool"
    and least: "\<forall>x\<in>set ?pool. load_score n \<le> load_score x" by blast+
  from mem have "n \<in> set (online_nodes s)" by (auto split: if_splits)
  then show "node_status n = Online" by (simp add: online_nodes_def)
  from mem show "n \<in> candidate_set j s" unfolding pool_set .
  from least show "\<forall>m\<in>candidate_set j s. load_score n \<le> load_score m"
    unfolding pool_set .
qed

theorem select_best_node_spec_witness:
  "select_best_node (example_job ''job_1000_0'' ''thread'' ''normal'' True) two_nodes
     = Some (example_node ''N2'' True (1/2)) \<and>
   select_best_node (example_job ''job_1000_0'' ''thread'' ''normal'' True) (init 0) = None \<and>
   example_node ''N2'' True (1/2)
     \<in> candidate_set (example_job ''job_1000_0'' ''thread'' ''normal'' True) two_nodes \<and>
   example_node ''N1'' False (1/10)
     \<notin> candidate_set (example_job ''job_1000_0'' ''thread'' ''normal'' True) two_nodes"
proof -
  let ?j = "example_job ''job_1000_0'' ''thread'' ''normal'' True"
  have sel: "select_best_node ?j two_nodes = Some (example_node ''N2'' True (1/2))"
    by (simp add: select_best_node_def online_nodes_def two_nodes_def init_def
        example_node_def example_job_def)
  have none: "\<forall>n \<in> snd ` set (nodes (init 0)). node_status n \<noteq> Online"
    by (simp add: init_def)
  from select_best_node_spec [of ?j two_nodes] sel
  have mem: "example_node ''N2'' True (1/2) \<in> candidate_set ?j two_nodes"
    and least: "\<forall>m \<in> candidate_set ?j two_nodes.
                  load_score (example_node ''N2'' True (1/2)) \<le> load_score m"
    by blast+
  have "\<not> load_score (example_node ''N2'' True (1/2))
          \<le> load_score (example_node ''N1'' False (1/10))"
    by (simp add: example_node_def)
  with least have out: "example_node ''N1'' False (1/10) \<notin> candidate_set ?j two_nodes"
    by blast
  from select_best_node_spec [of ?j "init 0"] none
  have "select_best_node ?j (init 0) = None"
    by blast
  with sel mem out show ?thesis by simp
qed

lemma select_best_node_gpu:
  assumes "gpu_preferred j" and "filter gpu_enabled (online_nodes t) \<noteq> []"
    and "select_best_node j t = Some n"
  shows "gpu_enabled n"
proof -
  from assms obtain ys where "sort_key load_score (filter gpu_enabled (online_nodes t)) = n # ys"
    unfolding select_best_node_sorted by (auto split: list.splits)
  from sort_key_head [OF this] show ?thesis by simp
qed


section \<open>Completion: the statistics\<close>

text \<open>
  A completion as the dispatcher produces it: the job is in \<open>active_jobs\<close> under its id, it
  was marked assigned, and the node it was assigned to is in the registry.
\<close>

lemma completion_counters:
  assumes "map_of (active_jobs s) jid = Some r"
    and "assigned_at (heap s ! r) = Some ta"
    and "assigned_node (heap s ! r) = Some k"
    and "map_of (nodes s) k = Some n"
  shows "fst (handle_job_completion jid res now s) = None"
    and "gpu_calculations (cluster_stats (snd (handle_job_completion jid res now s))) =
      gpu_calculations (cluster_stats s) +
        (if gpu_preferred (heap s ! r) \<and> gpu_enabled n then 1 else 0)"
    and "cpu_calculations (cluster_stats (snd (handle_job_completion jid res now s))) =
      cpu_calculations (cluster_stats s) +
        (if gpu_preferred (heap s ! r) \<and> gpu_enabled n then 0 else 1)"
    and "total_calculations (cluster_stats (snd (handle_job_completion jid res now s))) =
      total_calculations (cluster_stats s) + 1"
  using assms
  by (simp_all add: handle_job_completion_def lookup_node_def Let_def update_conv'
      record_completion_def broadcast_update_def)

lemma handle_job_completion_node:
  assumes "map_of (active_jobs s) jid = Some r"
    and "assigned_at (heap s ! r) = Some ta"
    and "assigned_node (heap s ! r) = Some k"
    and "map_of (nodes s) k = Some n"
  shows "map_of (nodes (snd (handle_job_completion jid res now s))) k
           = Some (record_completion (now - ta) n)"
  using assms
  by (simp add: handle_job_completion_def lookup_node_def Let_def update_conv'
      broadcast_update_def)

text \<open>
  C1, as amended: \<open>handle_job_completion\<close> adds one to \<open>gpu_calculations\<close> exactly when the
  job's \<open>gpu_preferred\<close> flag and the executing node's \<open>gpu_enabled\<close> flag are both true at
  completion time, and adds one to \<open>cpu_calculations\<close> otherwise.
\<close>

theorem handle_job_completion_attribution:
  assumes "map_of (active_jobs s) jid = Some r"
    and "assigned_at (heap s ! r) = Some ta"
    and "assigned_node (heap s ! r) = Some k"
    and "map_of (nodes s) k = Some n"
  shows "fst (handle_job_completion jid res now s) = None \<and>
    gpu_calculations (cluster_stats (snd (handle_job_completion jid res now s))) =
      gpu_calculations (cluster_stats s) +
        (if gpu_preferred (heap s ! r) \<and> gpu_enabled n then 1 else 0) \<and>
    cpu_calculations (cluster_stats (snd (handle_job_completion jid res now s))) =
      cpu_calculations (cluster_stats s) +
        (if gpu_preferred (heap s ! r) \<and> gpu_enabled n then 0 else 1)"
  using completion_counters(1,2,3) [OF assms] by simp

theorem handle_job_completion_attribution_witness:
  "fst (handle_job_completion ''job_1000_0'' ''{}'' 3 (in_flight True (Some True))) = None \<and>
   gpu_calculations (cluster_stats
     (snd (handle_job_completion ''job_1000_0'' ''{}'' 3 (in_flight True (Some True))))) = 1 \<and>
   cpu_calculations (cluster_stats
     (snd (handle_job_completion ''job_1000_0'' ''{}'' 3 (in_flight True (Some True))))) = 0"
proof -
  have "map_of (active_jobs (in_flight True (Some True))) ''job_1000_0'' = Some 0"
    and "assigned_at (heap (in_flight True (Some True)) ! 0) = Some 2"
    and "assigned_node (heap (in_flight True (Some True)) ! 0) = Some ''N1''"
    and "map_of (nodes (in_flight True (Some True))) ''N1'' = Some (example_node ''N1'' True 0)"
    by (simp_all add: run_defs example_node_def)
  from handle_job_completion_attribution [OF this, of "''{}''" 3]
  show ?thesis by (simp add: run_defs example_node_def)
qed

text \<open>
  C1 as stated fails: a job submitted with \<open>gpu_preferred = false\<close> runs on the GPU-enabled
  node \<open>N1\<close>; its completion leaves \<open>gpu_calculations\<close> as it was and adds one to
  \<open>cpu_calculations\<close>.
\<close>

theorem completion_attribution_counterexample:
  "map (gpu_enabled \<circ> snd) (nodes (in_flight True (Some False))) = [True] \<and>
   map assigned_node (heap (in_flight True (Some False))) = [Some ''N1''] \<and>
   gpu_calculations (cluster_stats
     (snd (handle_job_completion ''job_1000_0'' ''{}'' 3 (in_flight True (Some False)))))
     = gpu_calculations (cluster_stats (in_flight True (Some False))) \<and>
   cpu_calculations (cluster_stats
     (snd (handle_job_completion ''job_1000_0'' ''{}'' 3 (in_flight True (Some False)))))
     = cpu_calculations (cluster_stats (in_flight True (Some False))) + 1"
  by (simp add: run_defs)


section \<open>Completion: the running mean\<close>

lemma counted_record_completion:
  assumes "counted n ts"
  shows "counted (record_completion t n) (ts @ [t])"
proof -
  have nz: "1 + real (length ts) \<noteq> 0"
    using of_nat_0_le_iff [of "length ts", where 'a = real] by linarith
  from assms have jc: "jobs_completed n = length ts"
    and av: "average_job_time n * real (length ts) = sum_list ts"
    by (simp_all add: counted_def)
  have "average_job_time (record_completion t n) * (1 + real (length ts))
          = average_job_time n * real (length ts) + t"
    using nz by (simp add: record_completion_def Let_def jc add.commute)
  with av jc show ?thesis
    by (simp add: counted_def record_completion_def Let_def)
qed

lemma counted_cong:
  "jobs_completed n' = jobs_completed n \<Longrightarrow> average_job_time n' = average_job_time n \<Longrightarrow>
   counted n' ts = counted n ts"
  by (simp add: counted_def)

lemma completion_times_append:
  "events s' = events s @ [e] \<Longrightarrow> completion_times k s' = tally k e (completion_times k s)"
  by (simp add: completion_times_def)

lemma completion_times_same:
  "events s' = events s \<Longrightarrow> completion_times k s' = completion_times k s"
  by (simp add: completion_times_def)

text \<open>Steps that leave the registry and the tallies alone.\<close>

lemma mean_inv_same:
  assumes "mean_inv s" and "nodes s' = nodes s"
    and "\<And>k. completion_times k s' = completion_times k s"
  shows "mean_inv s'"
  using assms by (simp add: mean_inv_def)

lemma mean_inv_init: "mean_inv (init t0)"
  by (simp add: mean_inv_def init_def)

lemma mean_inv_submit_job: "mean_inv s \<Longrightarrow> mean_inv (snd (submit_job d stamp now s))"
  by (rule mean_inv_same [of s])
     (simp_all add: submit_job_def Let_def enqueue_def completion_times_def)

lemma mean_inv_cleanup: "mean_inv s \<Longrightarrow> mean_inv (cleanup_old_jobs now s)"
  by (rule mean_inv_same [of s]) (simp_all add: cleanup_old_jobs_def Let_def completion_times_def)

lemma mean_inv_mark_assigned: "mean_inv s \<Longrightarrow> mean_inv (mark_assigned r n t s)"
  by (rule mean_inv_same [of s]) (simp_all add: mark_assigned_def completion_times_def)

lemma mean_inv_enqueue: "mean_inv s \<Longrightarrow> mean_inv (enqueue j r s)"
  by (rule mean_inv_same [of s]) (simp_all add: enqueue_def completion_times_def)

lemma mean_inv_wait_for_get:
  "mean_inv s \<Longrightarrow> wait_for_get c s = Some (r, s') \<Longrightarrow> mean_inv s'"
  by (rule mean_inv_same [of s])
     (auto simp: wait_for_get_def completion_times_def split: queue_class.splits list.splits)

lemma mean_inv_handle_job_failure:
  "mean_inv s \<Longrightarrow> mean_inv (handle_job_failure jid msg now s)"
  by (rule mean_inv_same [of s])
     (simp_all add: handle_job_failure_def Let_def broadcast_update_def completion_times_def
        split: option.splits)

lemma mean_inv_heartbeat: 
  assumes "mean_inv s" shows "mean_inv (snd (heartbeat d now s))"
proof (cases "map_of (nodes s) (hb_node_id d)")
  case None
  with assms show ?thesis by (simp add: heartbeat_def)
next
  case (Some n)
  let ?n' = "n\<lparr>last_heartbeat := now, node_status := Online,
                load_score := get_default (hb_load_score d) 0\<rparr>"
  have st: "snd (heartbeat d now s) = s\<lparr>nodes := AList.update (hb_node_id d) ?n' (nodes s)\<rparr>"
    using Some by (simp add: heartbeat_def)
  have ct: "\<And>k. completion_times k (snd (heartbeat d now s)) = completion_times k s"
    unfolding st by (simp add: completion_times_def)
  have c: "\<And>ts. counted ?n' ts = counted n ts" by (simp add: counted_def)
  show ?thesis
    unfolding mean_inv_def ct
    using assms Some unfolding st
    by (auto simp: mean_inv_def distinct_update update_conv' c)
qed

lemma mean_inv_register_node:
  assumes "mean_inv s" shows "mean_inv (snd (register_node d now s))"
proof -
  let ?k = "reg_node_id d"
  define n where "n = \<lparr>node_id = reg_node_id d, address = reg_address d,
      capabilities = get_default (reg_capabilities d) [],
      gpu_enabled = get_default (reg_gpu_enabled d) False,
      worker_threads = get_default (reg_worker_threads d) 1,
      node_status = Online, last_heartbeat = now, jobs_completed = 0,
      average_job_time = 0, load_score = 0\<rparr>"
  have n: "node_id n = ?k" "jobs_completed n = 0" by (simp_all add: n_def)
  have nodes: "nodes (snd (register_node d now s)) = AList.update ?k n (nodes s)"
    by (simp add: register_node_def Let_def broadcast_update_def n_def)
  obtain st where ev: "events (snd (register_node d now s)) = events s @ [Node_registered n st]"
    by (simp add: register_node_def Let_def broadcast_update_def n_def)
  have ct: "\<And>k. completion_times k (snd (register_node d now s))
                = (if k = ?k then [] else completion_times k s)"
    using completion_times_append [OF ev] n(1) by auto
  show ?thesis
    unfolding mean_inv_def nodes ct
    using assms n(2)
    by (auto simp: mean_inv_def distinct_update update_conv' counted_def)
qed


lemma mean_inv_update:
  assumes "mean_inv s" and "nodes s' = AList.update k n' (nodes s)"
    and "counted n' (completion_times k s')"
    and "\<And>k'. k' \<noteq> k \<Longrightarrow> completion_times k' s' = completion_times k' s"
  shows "mean_inv s'"
proof -
  have d: "distinct (map fst (nodes s'))"
    using assms(1,2) by (simp add: mean_inv_def distinct_update)
  have "counted n (completion_times k' s')" if "map_of (nodes s') k' = Some n" for k' n
  proof (cases "k' = k")
    case True
    with that assms(2) have "n = n'" by (simp add: update_conv')
    with assms(3) True show ?thesis by simp
  next
    case False
    with that assms(2) have "map_of (nodes s) k' = Some n" by (simp add: update_conv')
    with assms(1) have "counted n (completion_times k' s)" by (simp add: mean_inv_def)
    with assms(4) [OF False] show ?thesis by simp
  qed
  with d show ?thesis unfolding mean_inv_def by blast
qed

lemma mean_inv_unregistered:
  assumes "mean_inv s" and "nodes s' = nodes s" and "map_of (nodes s) k = None"
    and "\<And>k'. k' \<noteq> k \<Longrightarrow> completion_times k' s' = completion_times k' s"
  shows "mean_inv s'"
proof -
  have "counted n (completion_times k' s')" if "map_of (nodes s') k' = Some n" for k' n
  proof -
    from that assms(2,3) have ne: "k' \<noteq> k" by auto
    from that assms(2) have "map_of (nodes s) k' = Some n" by simp
    with assms(1) have "counted n (completion_times k' s)" by (simp add: mean_inv_def)
    with assms(4) [OF ne] show ?thesis by simp
  qed
  with assms(1,2) show ?thesis unfolding mean_inv_def by simp
qed

text \<open>
  What a completion does to the registry and to the log: nothing, or it logs one
  \<open>job_completed\<close> event with an execution time and updates the node the job names, if
  that node is registered.
\<close>

lemma handle_job_completion_effect:
  "(nodes (snd (handle_job_completion jid res now s)) = nodes s \<and>
    events (snd (handle_job_completion jid res now s)) = events s) \<or>
   (\<exists>j st t. events (snd (handle_job_completion jid res now s))
                = events s @ [Job_completed j st] \<and>
      execution_time j = Some t \<and>
      nodes (snd (handle_job_completion jid res now s)) =
        (case assigned_node j of
           None \<Rightarrow> nodes s
         | Some k \<Rightarrow>
             (case map_of (nodes s) k of
                None \<Rightarrow> nodes s
              | Some n \<Rightarrow> AList.update k (record_completion t n) (nodes s))))"
proof (cases "map_of (active_jobs s) jid")
  case None
  then show ?thesis by (simp add: handle_job_completion_def)
next
  case act: (Some r)
  show ?thesis
  proof (cases "assigned_at (heap s ! r)")
    case None
    with act show ?thesis by (simp add: handle_job_completion_def Let_def)
  next
    case at: (Some ta)
    show ?thesis
    proof (cases "assigned_node (heap s ! r)")
      case None
      with act at show ?thesis
        by (cases "gpu_preferred (heap s ! r)")
           (simp_all add: handle_job_completion_def Let_def lookup_node_def broadcast_update_def)
    next
      case nid: (Some k)
      show ?thesis
      proof (cases "map_of (nodes s) k")
        case None
        with act at nid show ?thesis
          by (cases "gpu_preferred (heap s ! r)")
             (simp_all add: handle_job_completion_def Let_def lookup_node_def
                broadcast_update_def)
      next
        case (Some n)
        with act at nid show ?thesis
          by (cases "gpu_preferred (heap s ! r)"; cases "gpu_enabled n")
             (simp_all add: handle_job_completion_def Let_def lookup_node_def
                broadcast_update_def update_conv' record_completion_def)
      qed
    qed
  qed
qed

lemma mean_inv_handle_job_completion:
  assumes "mean_inv s"
  shows "mean_inv (snd (handle_job_completion jid res now s))"
proof (rule disjE [OF handle_job_completion_effect [of jid res now s]])
  assume "nodes (snd (handle_job_completion jid res now s)) = nodes s \<and>
    events (snd (handle_job_completion jid res now s)) = events s"
  then have "nodes (snd (handle_job_completion jid res now s)) = nodes s"
    and "\<And>k. completion_times k (snd (handle_job_completion jid res now s))
           = completion_times k s"
    by (simp_all add: completion_times_def)
  with assms show ?thesis by (rule mean_inv_same)
next
  let ?s' = "snd (handle_job_completion jid res now s)"
  assume "\<exists>j st t. events ?s' = events s @ [Job_completed j st] \<and>
      execution_time j = Some t \<and>
      nodes ?s' =
        (case assigned_node j of
           None \<Rightarrow> nodes s
         | Some k \<Rightarrow>
             (case map_of (nodes s) k of
                None \<Rightarrow> nodes s
              | Some n \<Rightarrow> AList.update k (record_completion t n) (nodes s)))"
  then obtain j st t where ev: "events ?s' = events s @ [Job_completed j st]"
    and ex: "execution_time j = Some t"
    and nd: "nodes ?s' =
        (case assigned_node j of
           None \<Rightarrow> nodes s
         | Some k \<Rightarrow>
             (case map_of (nodes s) k of
                None \<Rightarrow> nodes s
              | Some n \<Rightarrow> AList.update k (record_completion t n) (nodes s)))"
    by (elim exE conjE)
  have ct: "completion_times k ?s' =
        (if assigned_node j = Some k then completion_times k s @ [t] else completion_times k s)"
    for k
    using completion_times_append [OF ev, of k] ex by simp
  show ?thesis
  proof (cases "assigned_node j")
    case None
    then have "nodes ?s' = nodes s" using nd by simp
    moreover have "\<And>k. completion_times k ?s' = completion_times k s"
      using None by (simp add: ct)
    ultimately show ?thesis by (rule mean_inv_same [OF assms])
  next
    case nid: (Some k)
    have other: "\<And>k'. k' \<noteq> k \<Longrightarrow> completion_times k' ?s' = completion_times k' s"
      using nid by (simp add: ct)
    show ?thesis
    proof (cases "map_of (nodes s) k")
      case None
      with nid nd have "nodes ?s' = nodes s" by simp
      then show ?thesis by (rule mean_inv_unregistered [OF assms _ None other])
    next
      case (Some n)
      with nid nd have upd: "nodes ?s' = AList.update k (record_completion t n) (nodes s)"
        by simp
      from assms Some have "counted n (completion_times k s)" by (simp add: mean_inv_def)
      then have "counted (record_completion t n) (completion_times k s @ [t])"
        by (rule counted_record_completion)
      then have "counted (record_completion t n) (completion_times k ?s')"
        using nid by (simp add: ct)
      then show ?thesis by (rule mean_inv_update [OF assms upd _ other])
    qed
  qed
qed

lemma mean_inv_rpc_finished:
  assumes "mean_inv s" shows "mean_inv (rpc_finished r outcome t s)"
proof (cases outcome)
  case (Raised msg)
  with assms show ?thesis by (simp add: rpc_finished_def mean_inv_handle_job_failure)
next
  case (Responded code body)
  show ?thesis
  proof (cases "code = 200")
    case False
    with Responded assms show ?thesis
      by (simp add: rpc_finished_def mean_inv_handle_job_failure)
  next
    case True
    show ?thesis
    proof (cases body)
      case (Inl msg)
      with True Responded assms show ?thesis
        by (simp add: rpc_finished_def mean_inv_handle_job_failure)
    next
      case (Inr res)
      let ?c = "handle_job_completion (job_id (heap s ! r)) res t s"
      have inv: "mean_inv (snd ?c)" using assms by (rule mean_inv_handle_job_completion)
      have "rpc_finished r outcome t s =
              (case fst ?c of None \<Rightarrow> snd ?c
               | Some e \<Rightarrow> handle_job_failure (job_id (heap s ! r)) (str_error e) t (snd ?c))"
        using True Responded Inr
        by (simp add: rpc_finished_def Let_def split: prod.splits option.splits)
      with inv show ?thesis
        by (simp add: mean_inv_handle_job_failure split: option.splits)
    qed
  qed
qed

text \<open>The liveness sweep: each node keeps its two counters.\<close>

lemma mean_inv_check_node:
  assumes "mean_inv s" and "map_of (nodes s) (fst kn) = Some n'"
    and "jobs_completed n' = jobs_completed (snd kn)"
    and "average_job_time n' = average_job_time (snd kn)"
  shows "mean_inv (check_node now kn s)"
proof (cases "now - last_heartbeat (snd kn) > 60 \<and> node_status (snd kn) = Online")
  case False
  then have "check_node now kn s = s" by (simp only: check_node_def if_False)
  with assms(1) show ?thesis by simp
next
  case True
  let ?s' = "check_node now kn s"
  have upd: "nodes ?s' = AList.update (fst kn) ((snd kn)\<lparr>node_status := Offline\<rparr>) (nodes s)"
    using True by (simp add: check_node_def broadcast_update_def)
  have ct: "\<And>k. completion_times k ?s' = completion_times k s"
    using True by (simp add: check_node_def broadcast_update_def completion_times_def)
  from assms(1,2) have "counted n' (completion_times (fst kn) s)" by (simp add: mean_inv_def)
  with assms(3,4) have "counted ((snd kn)\<lparr>node_status := Offline\<rparr>) (completion_times (fst kn) ?s')"
    by (simp add: counted_def ct)
  then show ?thesis by (rule mean_inv_update [OF assms(1) upd _ ct])
qed

lemma check_node_lookup:
  "\<exists>n'. map_of (nodes s) k = Some n' \<and> jobs_completed n' = c \<and> average_job_time n' = a \<Longrightarrow>
   \<exists>n'. map_of (nodes (check_node now kn s)) k = Some n' \<and> jobs_completed n' = c \<and>
        average_job_time n' = a"
  if "\<exists>n'. map_of (nodes s) (fst kn) = Some n' \<and> jobs_completed n' = jobs_completed (snd kn) \<and>
        average_job_time n' = average_job_time (snd kn)"
  using that by (auto simp: check_node_def broadcast_update_def update_conv')

lemma mean_inv_fold_check_node:
  assumes "mean_inv s"
    and "\<forall>kn \<in> set xs. \<exists>n'. map_of (nodes s) (fst kn) = Some n' \<and>
           jobs_completed n' = jobs_completed (snd kn) \<and>
           average_job_time n' = average_job_time (snd kn)"
  shows "mean_inv (fold (check_node now) xs s)"
  using assms
proof (induction xs arbitrary: s)
  case Nil
  then show ?case by simp
next
  case (Cons kn xs)
  from Cons.prems(2) obtain n' where n': "map_of (nodes s) (fst kn) = Some n'"
    "jobs_completed n' = jobs_completed (snd kn)"
    "average_job_time n' = average_job_time (snd kn)"
    by auto
  have inv: "mean_inv (check_node now kn s)"
    using Cons.prems(1) n' by (rule mean_inv_check_node)
  have rest: "\<forall>x \<in> set xs. \<exists>m. map_of (nodes (check_node now kn s)) (fst x) = Some m \<and>
           jobs_completed m = jobs_completed (snd x) \<and>
           average_job_time m = average_job_time (snd x)"
  proof
    fix x assume "x \<in> set xs"
    with Cons.prems(2) have "\<exists>m. map_of (nodes s) (fst x) = Some m \<and>
           jobs_completed m = jobs_completed (snd x) \<and>
           average_job_time m = average_job_time (snd x)" by simp
    moreover have "\<exists>m. map_of (nodes s) (fst kn) = Some m \<and>
           jobs_completed m = jobs_completed (snd kn) \<and>
           average_job_time m = average_job_time (snd kn)"
      using n' by blast
    ultimately show "\<exists>m. map_of (nodes (check_node now kn s)) (fst x) = Some m \<and>
           jobs_completed m = jobs_completed (snd x) \<and>
           average_job_time m = average_job_time (snd x)"
      by (rule check_node_lookup [rotated])
  qed
  from Cons.IH [OF inv rest] show ?case by simp
qed

lemma mean_inv_monitor_nodes:
  assumes "mean_inv s" shows "mean_inv (monitor_nodes now s)"
proof -
  have "\<forall>kn \<in> set (nodes s). \<exists>n'. map_of (nodes s) (fst kn) = Some n' \<and>
           jobs_completed n' = jobs_completed (snd kn) \<and>
           average_job_time n' = average_job_time (snd kn)"
  proof
    fix kn assume "kn \<in> set (nodes s)"
    then have "(fst kn, snd kn) \<in> set (nodes s)" by simp
    with assms have "map_of (nodes s) (fst kn) = Some (snd kn)"
      by (intro map_of_is_SomeI) (simp_all add: mean_inv_def)
    then show "\<exists>n'. map_of (nodes s) (fst kn) = Some n' \<and>
           jobs_completed n' = jobs_completed (snd kn) \<and>
           average_job_time n' = average_job_time (snd kn)" by simp
  qed
  with assms have "mean_inv (fold (check_node now) (nodes s) s)"
    by (rule mean_inv_fold_check_node)
  then show ?thesis
    by (rule mean_inv_same) (simp_all add: monitor_nodes_def Let_def completion_times_def)
qed

lemma mean_inv_job_dequeued:
  "mean_inv s \<Longrightarrow> mean_inv (snd (job_dequeued r t s))"
  by (simp add: job_dequeued_def mean_inv_mark_assigned mean_inv_enqueue split: option.splits)

lemma mean_inv_assign_jobs:
  assumes "mean_inv (snd cfg)" shows "mean_inv (snd (assign_jobs x cfg))"
proof (cases cfg)
  case (Pair loc s)
  with assms have inv: "mean_inv s" by simp
  show ?thesis
  proof (cases x)
    case (Wake t)
    show ?thesis
    proof (cases loc)
      case (Waiting c)
      show ?thesis
      proof (cases "wait_for_get c s")
        case None
        with Pair Wake Waiting inv show ?thesis by (simp split: queue_class.splits)
      next
        case (Some a)
        then obtain r s1 where a: "wait_for_get c s = Some (r, s1)" by (cases a) simp
        with inv have "mean_inv s1" by (rule mean_inv_wait_for_get)
        then have "mean_inv (snd (job_dequeued r t s1))" by (rule mean_inv_job_dequeued)
        with Pair Wake Waiting a show ?thesis by simp
      qed
    qed (use Pair Wake inv in simp_all)
  next
    case (Answer outcome t)
    with Pair inv show ?thesis
      by (cases loc) (simp_all add: mean_inv_rpc_finished)
  qed
qed

lemma mean_inv_step:
  assumes "mean_inv (snd cfg)" shows "mean_inv (snd (step a cfg))"
proof (cases cfg)
  case (Pair loc s)
  with assms have inv: "mean_inv s" by simp
  show ?thesis
  proof (cases a)
    case (Dispatcher x)
    with Pair assms mean_inv_assign_jobs [of cfg x] show ?thesis by simp
  qed (use Pair inv in \<open>simp_all add: mean_inv_register_node mean_inv_heartbeat
        mean_inv_submit_job mean_inv_monitor_nodes mean_inv_cleanup\<close>)
qed

lemma mean_inv_fold_step:
  "mean_inv (snd cfg) \<Longrightarrow> mean_inv (snd (fold step acts cfg))"
  by (induction acts arbitrary: cfg) (simp_all add: mean_inv_step)

lemma mean_inv_run: "mean_inv (snd (run t0 acts))"
  unfolding run_def by (rule mean_inv_fold_step) (simp add: mean_inv_init)

text \<open>
  C9: in every state that a run of the coordinator reaches, a registered node whose record
  has seen at least one completion since it was created has counted exactly the jobs it
  completed since then, and its \<open>average_job_time\<close> is the arithmetic mean of their
  execution times. The completions are those of \<open>handle_job_completion\<close>, interleaved with
  any registrations, heartbeats, submissions, failures and sweeps; a new registration of
  the node starts the list afresh.
\<close>

theorem average_job_time_is_mean:
  assumes "map_of (nodes (snd (run t0 acts))) k = Some n"
    and "completion_times k (snd (run t0 acts)) \<noteq> []"
  shows "jobs_completed n = length (completion_times k (snd (run t0 acts))) \<and>
         average_job_time n = sum_list (completion_times k (snd (run t0 acts)))
                                / real (length (completion_times k (snd (run t0 acts))))"
proof -
  let ?ts = "completion_times k (snd (run t0 acts))"
  from mean_inv_run [of t0 acts] assms(1) have c: "counted n ?ts" by (simp add: mean_inv_def)
  from assms(2) have "real (length ?ts) \<noteq> 0" by simp
  with c show ?thesis by (simp add: counted_def field_simps)
qed

theorem average_job_time_is_mean_witness:
  "map_of (nodes (snd (run 0 two_completions))) ''N1''
     = Some ((example_node ''N1'' False (1/2))
               \<lparr>last_heartbeat := 11/4, jobs_completed := 2, average_job_time := 2\<rparr>) \<and>
   completion_times ''N1'' (snd (run 0 two_completions)) = [1, 3] \<and>
   average_job_time ((example_node ''N1'' False (1/2))
               \<lparr>last_heartbeat := 11/4, jobs_completed := 2, average_job_time := 2\<rparr>)
     = (1 + 3) / 2"
proof -
  let ?n = "(example_node ''N1'' False (1/2))
               \<lparr>last_heartbeat := 11/4, jobs_completed := 2, average_job_time := 2\<rparr>"
  have a: "map_of (nodes (snd (run 0 two_completions))) ''N1'' = Some ?n"
    by (simp add: two_completions_def example_node_def run_defs)
  have b: "completion_times ''N1'' (snd (run 0 two_completions)) = [1, 3]"
    by (simp add: two_completions_def run_defs)
  then have c: "completion_times ''N1'' (snd (run 0 two_completions)) \<noteq> []" by simp
  from average_job_time_is_mean [OF a c] b
  have "average_job_time ?n = (1 + 3) / 2" by simp
  with a b show ?thesis by simp
qed


section \<open>The count of online nodes\<close>

text \<open>Registration and the liveness sweep recompute \<open>nodes_online\<close> as their last write.\<close>

lemma register_node_nodes_online:
  "nodes_online (cluster_stats (snd (register_node d now s)))
     = length (online_nodes (snd (register_node d now s)))"
  by (simp add: register_node_def Let_def online_nodes_def broadcast_update_def)

lemma monitor_nodes_nodes_online:
  "nodes_online (cluster_stats (monitor_nodes now s)) = length (online_nodes (monitor_nodes now s))"
  by (simp add: monitor_nodes_def Let_def online_nodes_def)

lemma heartbeat_cluster_stats:
  "cluster_stats (snd (heartbeat d now s)) = cluster_stats s"
  by (simp add: heartbeat_def split: option.splits)

text \<open>
  C2: \<open>heartbeat\<close> does not recompute it. The worker \<open>N1\<close> registers at time 0 and is demoted
  by the sweep at time 100, which sets \<open>nodes_online\<close> to 0; its heartbeat at time 101 is
  acknowledged and sets its status to online, and \<open>nodes_online\<close> is still 0.
\<close>

theorem heartbeat_stale_nodes_online:
  "nodes_online (cluster_stats (monitor_nodes 100 (one_worker False))) = 0 \<and>
   map node_status (map snd (nodes (monitor_nodes 100 (one_worker False)))) = [Offline] \<and>
   fst (heartbeat \<lparr>hb_node_id = ''N1'', hb_load_score = Some (1/2)\<rparr> 101
          (monitor_nodes 100 (one_worker False))) = (200, ''acknowledged'') \<and>
   map node_status (map snd (nodes (snd
       (heartbeat \<lparr>hb_node_id = ''N1'', hb_load_score = Some (1/2)\<rparr> 101
          (monitor_nodes 100 (one_worker False)))))) = [Online] \<and>
   nodes_online (cluster_stats (snd
       (heartbeat \<lparr>hb_node_id = ''N1'', hb_load_score = Some (1/2)\<rparr> 101
          (monitor_nodes 100 (one_worker False))))) = 0"
  by (simp add: run_defs)


section \<open>Job identifiers and the two job maps\<close>

lemma submit_job_response:
  "fst (fst (submit_job d stamp now s)) = make_job_id stamp s"
  by (simp add: submit_job_def Let_def)

lemma submit_job_record:
  "heap (snd (submit_job d stamp now s)) ! length (heap s) =
     \<lparr>job_id = make_job_id stamp s,
      job_type = get_default (req_type d) ''thread'',
      priority = get_default (req_priority d) ''normal'',
      parameters = get_default (req_parameters d) ''{}'',
      submitted_at = now, job_status = Queued, assigned_node = None,
      gpu_preferred = get_default (req_gpu_preferred d) True,
      assigned_at = None, completed_at = None, job_result = None,
      execution_time = None, job_error = None, failed_at = None\<rparr>"
  by (simp add: submit_job_def Let_def enqueue_def)

lemma submit_job_fields:
  "active_jobs (snd (submit_job d stamp now s))
     = AList.update (make_job_id stamp s) (length (heap s)) (active_jobs s)"
  "heap (snd (submit_job d stamp now s)) = heap s @ [heap (snd (submit_job d stamp now s)) ! length (heap s)]"
  "nodes (snd (submit_job d stamp now s)) = nodes s"
  "completed_jobs (snd (submit_job d stamp now s)) = completed_jobs s"
  "cluster_stats (snd (submit_job d stamp now s)) = cluster_stats s"
  by (simp_all add: submit_job_def Let_def enqueue_def)

text \<open>
  The keys of the two maps: a submission adds the new id to \<open>active_jobs\<close> and leaves
  \<open>completed_jobs\<close> alone, so the two key sets stay disjoint exactly when the new id is not
  the id of a completed job; a completion moves the id from one map to the other.
\<close>

lemma submit_job_keys:
  "fst ` set (active_jobs (snd (submit_job d stamp now s)))
     = insert (make_job_id stamp s) (fst ` set (active_jobs s))"
  "fst ` set (completed_jobs (snd (submit_job d stamp now s))) = fst ` set (completed_jobs s)"
  by (simp_all add: submit_job_fields dom_update)

lemma handle_job_completion_keys:
  assumes "map_of (active_jobs s) jid = Some r" and "assigned_at (heap s ! r) = Some ta"
  shows "fst ` set (active_jobs (snd (handle_job_completion jid res now s)))
           = fst ` set (active_jobs s) - {jid}"
    and "fst ` set (completed_jobs (snd (handle_job_completion jid res now s)))
           = insert jid (fst ` set (completed_jobs s))"
  using assms
  by (auto simp: handle_job_completion_def Let_def broadcast_update_def dom_update
      AList.delete_eq split: option.splits)

text \<open>A failure and the retention sweep add no key; the sweep removes keys of \<open>completed_jobs\<close> only.\<close>

lemma fold_delete_keys:
  "fst ` set (fold AList.delete ks al) = fst ` set al - set ks"
  by (induction ks arbitrary: al) (auto simp: AList.delete_eq)

lemma cleanup_old_jobs_keys:
  "active_jobs (cleanup_old_jobs now s) = active_jobs s"
  "fst ` set (completed_jobs (cleanup_old_jobs now s)) \<subseteq> fst ` set (completed_jobs s)"
  by (auto simp: cleanup_old_jobs_def Let_def fold_delete_keys)

lemma handle_job_failure_keys:
  "active_jobs (handle_job_failure jid msg now s) = active_jobs s"
  "completed_jobs (handle_job_failure jid msg now s) = completed_jobs s"
  by (simp_all add: handle_job_failure_def Let_def broadcast_update_def split: option.splits)

text \<open>
  C3: two accepted submissions of one run receive the same id. The first job is running on
  the worker (one entry in \<open>active_jobs\<close>) when a second job is submitted at 7.0001 s and
  gets \<open>job_7000_1\<close>; the first job completes at 7.0002 s, so \<open>active_jobs\<close> has one entry
  again; the job submitted at 7.0003 s gets \<open>job_7000_1\<close> too.
\<close>

theorem submit_job_id_collision:
  "fst (fst (submit_job (submit_body ''thread'' ''normal'' None) 7000 (70001/10000)
               (in_flight False None))) = ''job_7000_1'' \<and>
   fst (fst (submit_job (submit_body ''thread'' ''normal'' None) 7000 (70003/10000)
               after_first_completion)) = ''job_7000_1'' \<and>
   map job_id (heap third_submitted) = [''job_1000_0'', ''job_7000_1'', ''job_7000_1''] \<and>
   active_jobs third_submitted = [(''job_7000_1'', 2)]"
  by (simp add: third_submitted_def after_first_completion_def run_defs)

text \<open>
  C4: after that collision the dispatcher runs the second job (reference 1) from time 8 to
  time 9. \<open>handle_job_completion\<close> finds the third job (reference 2) under the shared id,
  removes it from \<open>active_jobs\<close> and raises \<open>KeyError\<close> at \<open>job['assigned_at']\<close> before the
  insertion into \<open>completed_jobs\<close>: the id of the second and third job is a key of neither
  map, no sweep has run, the second job stays assigned and the third is marked completed.
  In the other direction, a job that is submitted, run and completed within one millisecond
  (1.0001 s to 1.0003 s) and followed by a submission at 1.0004 s leaves the id
  \<open>job_1000_0\<close> as a key of both maps.
\<close>

theorem job_id_not_in_exactly_one_map:
  "map job_id (heap (second_answered (Responded 200 (Inr ''{}''))))
     = [''job_1000_0'', ''job_7000_1'', ''job_7000_1''] \<and>
   map job_status (heap (second_answered (Responded 200 (Inr ''{}''))))
     = [Completed, Assigned, Completed] \<and>
   map_of (active_jobs (second_answered (Responded 200 (Inr ''{}'')))) ''job_7000_1'' = None \<and>
   map_of (completed_jobs (second_answered (Responded 200 (Inr ''{}'')))) ''job_7000_1''
     = None \<and>
   map_of (active_jobs (snd (submit_job (submit_body ''thread'' ''normal'' None) 1000
      (10004/10000) first_done))) ''job_1000_0'' = Some 1 \<and>
   map_of (completed_jobs (snd (submit_job (submit_body ''thread'' ''normal'' None) 1000
      (10004/10000) first_done))) ''job_1000_0'' = Some 0"
  by (simp add: second_answered_def third_submitted_def after_first_completion_def
      first_done_def run_defs)


section \<open>The queues\<close>












section \<open>Failure of the worker call\<close>

lemma handle_job_failure_active:
  assumes "map_of (active_jobs s) jid = Some r"
  shows "handle_job_failure jid msg t1 s =
     s\<lparr>heap := (heap s)[r := (heap s ! r)\<lparr>job_status := Failed, job_error := Some msg,
                                           failed_at := Some t1\<rparr>],
       events := events s @ [Job_failed ((heap s ! r)\<lparr>job_status := Failed,
                                job_error := Some msg, failed_at := Some t1\<rparr>) msg]\<rparr>"
  using assms by (simp add: handle_job_failure_def Let_def broadcast_update_def)

lemma rpc_failed_path:
  assumes "rpc_failed outcome"
  shows "\<exists>msg. rpc_finished r outcome t1 s = handle_job_failure (job_id (heap s ! r)) msg t1 s"
proof (cases outcome)
  case (Raised msg)
  then show ?thesis by (auto simp: rpc_finished_def)
next
  case (Responded code body)
  show ?thesis
  proof (cases "code = 200")
    case True
    with Responded assms obtain msg where "body = Inl msg"
      by (cases body) (auto simp: rpc_failed_def)
    with True Responded show ?thesis by (auto simp: rpc_finished_def)
  next
    case False
    with Responded show ?thesis by (auto simp: rpc_finished_def)
  qed
qed

lemma rpc_finished_failure:
  assumes "map_of (active_jobs s) (job_id (heap s ! r)) = Some r" and "rpc_failed outcome"
  shows "\<exists>msg. rpc_finished r outcome t1 s =
     s\<lparr>heap := (heap s)[r := (heap s ! r)\<lparr>job_status := Failed, job_error := Some msg,
                                           failed_at := Some t1\<rparr>],
       events := events s @ [Job_failed ((heap s ! r)\<lparr>job_status := Failed,
                                job_error := Some msg, failed_at := Some t1\<rparr>) msg]\<rparr>"
proof -
  from rpc_failed_path [OF assms(2)] obtain msg where
    "rpc_finished r outcome t1 s = handle_job_failure (job_id (heap s ! r)) msg t1 s" by blast
  with handle_job_failure_active [OF assms(1)] show ?thesis by auto
qed

text \<open>The same for \<open>assign_job_to_node\<close> run as a whole.\<close>

lemma assign_job_to_node_failure:
  assumes "r < length (heap s)"
    and "map_of (active_jobs s) (job_id (heap s ! r)) = Some r"
    and "rpc_failed outcome"
  shows "\<exists>msg. assign_job_to_node r n t0 outcome t1 s =
     s\<lparr>heap := (heap s)[r := (heap s ! r)\<lparr>assigned_node := Some (node_id n),
              assigned_at := Some t0, job_status := Failed, job_error := Some msg,
              failed_at := Some t1\<rparr>],
       events := events s @ [Job_failed ((heap s ! r)\<lparr>assigned_node := Some (node_id n),
              assigned_at := Some t0, job_status := Failed, job_error := Some msg,
              failed_at := Some t1\<rparr>) msg]\<rparr>"
proof -
  let ?m = "mark_assigned r n t0 s"
  have j: "heap ?m ! r = (heap s ! r)\<lparr>assigned_node := Some (node_id n),
              job_status := Assigned, assigned_at := Some t0\<rparr>"
    using assms(1) by (simp add: mark_assigned_def)
  then have "map_of (active_jobs ?m) (job_id (heap ?m ! r)) = Some r"
    using assms(2) by (simp add: mark_assigned_def)
  from rpc_finished_failure [OF this assms(3), of t1] obtain msg where
    "rpc_finished r outcome t1 ?m =
     ?m\<lparr>heap := (heap ?m)[r := (heap ?m ! r)\<lparr>job_status := Failed, job_error := Some msg,
                                           failed_at := Some t1\<rparr>],
       events := events ?m @ [Job_failed ((heap ?m ! r)\<lparr>job_status := Failed,
                                job_error := Some msg, failed_at := Some t1\<rparr>) msg]\<rparr>"
    by blast
  then show ?thesis
    unfolding assign_job_to_node_def j by (intro exI [of _ msg]) (simp add: mark_assigned_def)
qed

text \<open>
  When the job with reference \<open>r\<close> is in \<open>active_jobs\<close> under its own id and the call fails,
  the \<open>try\<close> block changes that job object only: its status becomes failed, \<open>failed_at\<close> is
  the current time and an error string is recorded. Both job maps, the three queues, the
  statistics and every node record are as before, and the log grows by one \<open>job_failed\<close>
  event for this job.
\<close>

lemma rpc_failure_under_own_id:
  assumes "r < length (heap s)"
    and "map_of (active_jobs s) (job_id (heap s ! r)) = Some r"
    and "rpc_failed outcome"
  shows "\<exists>msg.
     heap (rpc_finished r outcome t1 s) =
       (heap s)[r := (heap s ! r)\<lparr>job_status := Failed, job_error := Some msg,
                                   failed_at := Some t1\<rparr>] \<and>
     job_status (heap (rpc_finished r outcome t1 s) ! r) = Failed \<and>
     failed_at (heap (rpc_finished r outcome t1 s) ! r) = Some t1 \<and>
     job_error (heap (rpc_finished r outcome t1 s) ! r) = Some msg \<and>
     active_jobs (rpc_finished r outcome t1 s) = active_jobs s \<and>
     completed_jobs (rpc_finished r outcome t1 s) = completed_jobs s \<and>
     priority_queue (rpc_finished r outcome t1 s) = priority_queue s \<and>
     collatz_queue (rpc_finished r outcome t1 s) = collatz_queue s \<and>
     thread_queue (rpc_finished r outcome t1 s) = thread_queue s \<and>
     cluster_stats (rpc_finished r outcome t1 s) = cluster_stats s \<and>
     events (rpc_finished r outcome t1 s) =
       events s @ [Job_failed (heap (rpc_finished r outcome t1 s) ! r) msg] \<and>
     nodes (rpc_finished r outcome t1 s) = nodes s"
proof -
  from rpc_failed_path [OF assms(3)] obtain msg where
    "rpc_finished r outcome t1 s = handle_job_failure (job_id (heap s ! r)) msg t1 s" by blast
  then have "rpc_finished r outcome t1 s =
     s\<lparr>heap := (heap s)[r := (heap s ! r)\<lparr>job_status := Failed, job_error := Some msg,
                                           failed_at := Some t1\<rparr>],
       events := events s @ [Job_failed ((heap s ! r)\<lparr>job_status := Failed,
                                job_error := Some msg, failed_at := Some t1\<rparr>) msg]\<rparr>"
    using handle_job_failure_active [OF assms(2)] by simp
  with assms(1) show ?thesis by (intro exI [of _ msg]) simp
qed

text \<open>
  C7: \<open>handle_job_failure\<close> looks the job up by its id. After the collision of C3 the
  second and the third job share the id \<open>job_7000_1\<close> and \<open>active_jobs\<close> holds the third
  job under it. The dispatcher takes the second job (reference 1) at time 8 and the worker
  answers with status 500 at time 9: the third job, which was never sent to a worker, is
  marked failed with \<open>failed_at\<close> and the error string, and the second job, whose call
  failed, stays assigned with neither.
\<close>

theorem failed_call_marks_other_job:
  "map job_id (heap (second_answered (Responded 500 (Inr ''{}''))))
     = [''job_1000_0'', ''job_7000_1'', ''job_7000_1''] \<and>
   map assigned_node (heap (second_answered (Responded 500 (Inr ''{}''))))
     = [Some ''N1'', Some ''N1'', None] \<and>
   map job_status (heap (second_answered (Responded 500 (Inr ''{}''))))
     = [Completed, Assigned, Failed] \<and>
   map failed_at (heap (second_answered (Responded 500 (Inr ''{}''))))
     = [None, None, Some 9] \<and>
   map job_error (heap (second_answered (Responded 500 (Inr ''{}''))))
     = [None, None, Some ''Node returned status 500'']"
  by (simp add: second_answered_def third_submitted_def after_first_completion_def run_defs)


section \<open>Heartbeat\<close>

text \<open>
  C8: a heartbeat for an id that is not in the registry is answered with status 400 and
  \<open>unknown_node\<close> and changes nothing. A heartbeat for a registered id is acknowledged; the
  node's record gets status online, \<open>last_heartbeat\<close> the current time and \<open>load_score\<close> the
  value of the payload (0.0 when the payload has none); the other nodes, the order of the
  registry, the job objects, both job maps and the queues are as before.
\<close>

theorem heartbeat_spec:
  "(map_of (nodes s) (hb_node_id d) = None \<longrightarrow>
      heartbeat d now s = ((400, ''unknown_node''), s)) \<and>
   (\<forall>n. map_of (nodes s) (hb_node_id d) = Some n \<longrightarrow>
      fst (heartbeat d now s) = (200, ''acknowledged'') \<and>
      map_of (nodes (snd (heartbeat d now s))) (hb_node_id d) =
        Some (n\<lparr>node_status := Online, last_heartbeat := now,
                load_score := (case hb_load_score d of Some v \<Rightarrow> v | None \<Rightarrow> 0)\<rparr>) \<and>
      (\<forall>k. k \<noteq> hb_node_id d \<longrightarrow>
         map_of (nodes (snd (heartbeat d now s))) k = map_of (nodes s) k) \<and>
      map fst (nodes (snd (heartbeat d now s))) = map fst (nodes s) \<and>
      heap (snd (heartbeat d now s)) = heap s \<and>
      active_jobs (snd (heartbeat d now s)) = active_jobs s \<and>
      completed_jobs (snd (heartbeat d now s)) = completed_jobs s \<and>
      priority_queue (snd (heartbeat d now s)) = priority_queue s \<and>
      collatz_queue (snd (heartbeat d now s)) = collatz_queue s \<and>
      thread_queue (snd (heartbeat d now s)) = thread_queue s)"
proof (intro conjI allI impI)
  assume "map_of (nodes s) (hb_node_id d) = None"
  then show "heartbeat d now s = ((400, ''unknown_node''), s)"
    by (simp add: heartbeat_def)
next
  fix n
  assume h: "map_of (nodes s) (hb_node_id d) = Some n"
  then have step: "heartbeat d now s = ((200, ''acknowledged''),
     s\<lparr>nodes := AList.update (hb_node_id d)
          (n\<lparr>last_heartbeat := now, node_status := Online,
             load_score := (case hb_load_score d of Some v \<Rightarrow> v | None \<Rightarrow> 0)\<rparr>) (nodes s)\<rparr>)"
    by (simp add: heartbeat_def get_default_def split: option.splits)
  show "fst (heartbeat d now s) = (200, ''acknowledged'')" by (simp add: step)
  show "map_of (nodes (snd (heartbeat d now s))) (hb_node_id d) =
        Some (n\<lparr>node_status := Online, last_heartbeat := now,
                load_score := (case hb_load_score d of Some v \<Rightarrow> v | None \<Rightarrow> 0)\<rparr>)"
    by (simp add: step update_conv')
  show "map fst (nodes (snd (heartbeat d now s))) = map fst (nodes s)"
    using h by (auto simp add: step update_keys dest: map_of_SomeD intro: rev_image_eqI)
  show "heap (snd (heartbeat d now s)) = heap s"
    "active_jobs (snd (heartbeat d now s)) = active_jobs s"
    "completed_jobs (snd (heartbeat d now s)) = completed_jobs s"
    "priority_queue (snd (heartbeat d now s)) = priority_queue s"
    "collatz_queue (snd (heartbeat d now s)) = collatz_queue s"
    "thread_queue (snd (heartbeat d now s)) = thread_queue s"
    by (simp_all add: step)
  fix k assume "k \<noteq> hb_node_id d"
  then show "map_of (nodes (snd (heartbeat d now s))) k = map_of (nodes s) k"
    by (simp add: step update_conv')
qed

theorem heartbeat_spec_witness:
  "map_of (nodes (one_worker False)) ''N9'' = None \<and>
   heartbeat \<lparr>hb_node_id = ''N9'', hb_load_score = Some (1/2)\<rparr> 30 (one_worker False)
     = ((400, ''unknown_node''), one_worker False) \<and>
   map_of (nodes (one_worker False)) ''N1'' = Some (example_node ''N1'' False 0) \<and>
   fst (heartbeat \<lparr>hb_node_id = ''N1'', hb_load_score = Some (1/2)\<rparr> 30 (one_worker False))
     = (200, ''acknowledged'') \<and>
   map_of (nodes (snd (heartbeat \<lparr>hb_node_id = ''N1'', hb_load_score = Some (1/2)\<rparr> 30
                         (one_worker False)))) ''N1''
     = Some ((example_node ''N1'' False (1/2))\<lparr>last_heartbeat := 30\<rparr>)"
proof -
  have unknown: "map_of (nodes (one_worker False))
                   (hb_node_id \<lparr>hb_node_id = ''N9'', hb_load_score = Some (1/2)\<rparr>) = None"
    by (simp add: run_defs)
  have known: "map_of (nodes (one_worker False))
                 (hb_node_id \<lparr>hb_node_id = ''N1'', hb_load_score = Some (1/2)\<rparr>)
                 = Some (example_node ''N1'' False 0)"
    by (simp add: run_defs example_node_def)
  from heartbeat_spec [of "one_worker False" "\<lparr>hb_node_id = ''N9'', hb_load_score = Some (1/2)\<rparr>" 30]
    unknown
  have a: "heartbeat \<lparr>hb_node_id = ''N9'', hb_load_score = Some (1/2)\<rparr> 30 (one_worker False)
     = ((400, ''unknown_node''), one_worker False)"
    by blast
  from heartbeat_spec [of "one_worker False" "\<lparr>hb_node_id = ''N1'', hb_load_score = Some (1/2)\<rparr>" 30]
    known
  have b: "fst (heartbeat \<lparr>hb_node_id = ''N1'', hb_load_score = Some (1/2)\<rparr> 30 (one_worker False))
     = (200, ''acknowledged'')"
    and c: "map_of (nodes (snd (heartbeat \<lparr>hb_node_id = ''N1'', hb_load_score = Some (1/2)\<rparr> 30
                         (one_worker False)))) ''N1''
     = Some ((example_node ''N1'' False 0)\<lparr>node_status := Online, last_heartbeat := 30,
               load_score := 1/2\<rparr>)"
    by simp_all
  from c have "map_of (nodes (snd (heartbeat \<lparr>hb_node_id = ''N1'', hb_load_score = Some (1/2)\<rparr> 30
                         (one_worker False)))) ''N1''
     = Some ((example_node ''N1'' False (1/2))\<lparr>last_heartbeat := 30\<rparr>)"
    by (simp add: example_node_def)
  with a b unknown known show ?thesis by simp
qed


section \<open>The default of \<open>gpu_preferred\<close>\<close>

text \<open>
  C10: a submission whose body has no \<open>gpu_preferred\<close> field is recorded, under the id
  returned to the client, as a job with \<open>gpu_preferred = true\<close>. Node selection for this job
  returns a GPU-enabled node whenever one is online, and when the job is assigned to a
  registered node and completes there, it is counted in \<open>gpu_calculations\<close> exactly when
  that node is GPU-enabled.
\<close>

theorem submit_job_default_gpu_preferred:
  assumes "req_gpu_preferred d = None"
  shows "map_of (active_jobs (snd (submit_job d stamp now s))) (fst (fst (submit_job d stamp now s)))
           = Some (length (heap s)) \<and>
         gpu_preferred (heap (snd (submit_job d stamp now s)) ! length (heap s)) \<and>
         (\<forall>t n. select_best_node (heap (snd (submit_job d stamp now s)) ! length (heap s)) t = Some n \<and>
                 (\<exists>m \<in> set (online_nodes t). gpu_enabled m) \<longrightarrow> gpu_enabled n) \<and>
         (\<forall>n t0 res t1. map_of (nodes s) (node_id n) = Some n \<longrightarrow>
            gpu_calculations (cluster_stats (snd (handle_job_completion
                (fst (fst (submit_job d stamp now s))) res t1
                (mark_assigned (length (heap s)) n t0 (snd (submit_job d stamp now s)))))) =
              gpu_calculations (cluster_stats s) + (if gpu_enabled n then 1 else 0) \<and>
            cpu_calculations (cluster_stats (snd (handle_job_completion
                (fst (fst (submit_job d stamp now s))) res t1
                (mark_assigned (length (heap s)) n t0 (snd (submit_job d stamp now s)))))) =
              cpu_calculations (cluster_stats s) + (if gpu_enabled n then 0 else 1))"
proof (intro conjI allI impI)
  let ?s' = "snd (submit_job d stamp now s)"
  let ?r = "length (heap s)"
  show act: "map_of (active_jobs ?s') (fst (fst (submit_job d stamp now s))) = Some ?r"
    by (simp add: submit_job_response submit_job_fields(1) update_conv')
  show pref: "gpu_preferred (heap ?s' ! ?r)"
    using assms by (simp add: submit_job_record get_default_def)
  {
    fix t n
    assume "select_best_node (heap ?s' ! ?r) t = Some n \<and>
            (\<exists>m \<in> set (online_nodes t). gpu_enabled m)"
    then have sel: "select_best_node (heap ?s' ! ?r) t = Some n"
      and ne: "filter gpu_enabled (online_nodes t) \<noteq> []"
      by (auto simp: filter_empty_conv)
    from select_best_node_gpu [OF pref ne sel] show "gpu_enabled n" .
  }
  {
    fix n t0 res t1
    assume reg: "map_of (nodes s) (node_id n) = Some n"
    let ?f = "mark_assigned ?r n t0 ?s'"
    have len: "?r < length (heap ?s')"
      by (subst submit_job_fields(2)) simp
    have a: "map_of (active_jobs ?f) (fst (fst (submit_job d stamp now s))) = Some ?r"
      using act by (simp add: mark_assigned_def)
    have b: "assigned_at (heap ?f ! ?r) = Some t0"
      "assigned_node (heap ?f ! ?r) = Some (node_id n)"
      "gpu_preferred (heap ?f ! ?r)"
      using len pref by (simp_all add: mark_assigned_def)
    have c: "map_of (nodes ?f) (node_id n) = Some n"
      using reg by (simp add: mark_assigned_def submit_job_fields(3))
    have st: "cluster_stats ?f = cluster_stats s"
      by (simp add: mark_assigned_def submit_job_fields(5))
    from completion_counters(2) [OF a b(1) b(2) c, of res t1] b(3) st
    show "gpu_calculations (cluster_stats (snd (handle_job_completion
                (fst (fst (submit_job d stamp now s))) res t1 ?f))) =
              gpu_calculations (cluster_stats s) + (if gpu_enabled n then 1 else 0)"
      by simp
    from completion_counters(3) [OF a b(1) b(2) c, of res t1] b(3) st
    show "cpu_calculations (cluster_stats (snd (handle_job_completion
                (fst (fst (submit_job d stamp now s))) res t1 ?f))) =
              cpu_calculations (cluster_stats s) + (if gpu_enabled n then 0 else 1)"
      by simp
  }
qed

theorem submit_job_default_gpu_preferred_witness:
  "req_gpu_preferred (submit_body ''thread'' ''normal'' None) = None \<and>
   gpu_preferred
     (heap (snd (submit_job (submit_body ''thread'' ''normal'' None) 1000 1 (one_worker True))) ! 0) \<and>
   select_best_node
     (heap (snd (submit_job (submit_body ''thread'' ''normal'' None) 1000 1 (one_worker True))) ! 0)
     two_nodes = Some (example_node ''N2'' True (1/2)) \<and>
   gpu_enabled (example_node ''N2'' True (1/2))"
proof -
  let ?s' = "snd (submit_job (submit_body ''thread'' ''normal'' None) 1000 1 (one_worker True))"
  have a: "req_gpu_preferred (submit_body ''thread'' ''normal'' None) = None"
    by (simp add: submit_body_def)
  have l: "length (heap (one_worker True)) = 0"
    by (simp add: one_worker_def register_node_def Let_def broadcast_update_def init_def)
  have sel: "select_best_node (heap ?s' ! 0) two_nodes = Some (example_node ''N2'' True (1/2))"
    using submit_job_record [of "submit_body ''thread'' ''normal'' None" 1000 1 "one_worker True"] l
    by (simp add: select_best_node_def online_nodes_def two_nodes_def init_def
        example_node_def submit_body_def get_default_def)
  have ex: "\<exists>m \<in> set (online_nodes two_nodes). gpu_enabled m"
    by (simp add: online_nodes_def two_nodes_def init_def example_node_def)
  from submit_job_default_gpu_preferred [OF a, of 1000 1 "one_worker True"] l
  have pref: "gpu_preferred (heap ?s' ! 0)"
    and route: "\<forall>t n. select_best_node (heap ?s' ! 0) t = Some n \<and>
                 (\<exists>m \<in> set (online_nodes t). gpu_enabled m) \<longrightarrow> gpu_enabled n"
    by simp_all
  from route sel ex have "gpu_enabled (example_node ''N2'' True (1/2))" by blast
  with a pref sel show ?thesis by simp
qed


end
